theory Spec2Isabelle
  imports Main "HOL-Library.Multiset"
begin

section \<open>Chat backend: data model\<close>

text \<open>
  The embedding follows \<^verbatim>\<open>src/chat-app/backend/index.js\<close>. Identities are the
  string form of MongoDB ObjectIds. JavaScript values that may be \<^verbatim>\<open>undefined\<close>
  or \<^verbatim>\<open>null\<close> are options; exceptions are values of \<open>js_error\<close>.
\<close>

datatype js_error =
    TypeError
  | CastError
  | ValidationError
  | DbError
  | AuthError string

text \<open>\<^verbatim>\<open>userSchema\<close>, with the document's \<^verbatim>\<open>_id\<close>.\<close>

record user =
  user_id :: string
  email :: string
  password :: string
  firstName :: "string option"
  lastName :: "string option"
  color :: "string option"
  profileSetup :: bool

text \<open>
  \<^verbatim>\<open>messageSchema\<close>, with the document's \<^verbatim>\<open>_id\<close>. A document under
  construction may hold \<^verbatim>\<open>null\<close> in \<open>sender\<close> or \<open>recipient\<close> (the
  result of a failed \<^verbatim>\<open>User.findById\<close>); the schema's \<^verbatim>\<open>required: true\<close> is
  checked when the document is saved.
\<close>

record message =
  message_id :: string
  sender :: "string option"
  recipient :: "string option"
  content :: string
  messageType :: "string option"
  timestamp :: int

text \<open>The database operations a handler awaits; each may reject.\<close>

datatype dbop =
    FindSender
  | FindRecipient
  | SaveMessage
  | FindMessages
  | FindUsers
  | DeleteMessages

text \<open>
  What the handlers take from outside the repository (the libraries and the clock), as
  parameters:
  \<^item> \<open>castObjectId\<close>: mongoose's cast of a string to an ObjectId (\<open>None\<close>: CastError);
  \<^item> \<open>receiver_clause\<close>: which stored messages the query layer matches for the filter
    clause \<^verbatim>\<open>{ receiver: id }\<close>, whose path \<^verbatim>\<open>receiver\<close> is not in
    \<^verbatim>\<open>messageSchema\<close>;
  \<^item> \<open>db_fails\<close>: whether a database operation of this handler run rejects;
  \<^item> \<open>cookie_parse\<close>: \<^verbatim>\<open>cookie.parse\<close>;
  \<^item> \<open>jwt_verify\<close>: \<^verbatim>\<open>jwt.verify(token, SECRET_KEY, ...)\<close>, giving
    \<^verbatim>\<open>payload.userId\<close> on success and \<open>None\<close> on a verification error;
  \<^item> \<open>Date_now\<close>: the schema default \<^verbatim>\<open>Date.now\<close> of \<open>timestamp\<close>;
  \<^item> \<open>new_ObjectId\<close>: the \<^verbatim>\<open>_id\<close> mongoose gives a new document.
\<close>

record env =
  castObjectId :: "string \<Rightarrow> string option"
  receiver_clause :: "string \<Rightarrow> message \<Rightarrow> bool"
  db_fails :: "dbop \<Rightarrow> bool"
  cookie_parse :: "string \<Rightarrow> string \<Rightarrow> string option"
  jwt_verify :: "string \<Rightarrow> string option"
  Date_now :: int
  new_ObjectId :: string

text \<open>
  The server's state: the global \<^verbatim>\<open>userMap\<close> (user id to socket id) and the two
  collections, in insertion order.
\<close>

record server_state =
  userMap :: "string \<Rightarrow> string option"
  users :: "user list"
  messages :: "message list"

text \<open>JavaScript's \<^verbatim>\<open>!x\<close> on a value that is a string or undefined.\<close>

definition falsy :: "string option \<Rightarrow> bool" where
  "falsy v = (case v of None \<Rightarrow> True | Some s \<Rightarrow> s = [])"

section \<open>Presence: the handshake, connection and disconnect handlers\<close>

text \<open>A socket that passed the middleware: its id and the \<open>userId\<close> bound to it.\<close>

record socket =
  socket_id :: string
  socket_userId :: string

text \<open>
  \<^verbatim>\<open>
  io.use((socket, next) => {
        const cookies = socket.handshake.headers.cookie || "";
        const parsedCookie = cookie.parse(cookies);
        const token = parsedCookie.jwt;
        if (!token) return next(new Error("Authentication error, no token"));
        jwt.verify(token, SECRET_KEY, (err, payload) => {
              if (err) return next(new Error("Authentication error, couldn't verify token"));
              socket.userId = payload.userId;
              next();
        });
  });
  \<close>
  The argument is the handshake's cookie header (\<open>None\<close> when there is none).
\<close>

definition io_use :: "env \<Rightarrow> string option \<Rightarrow> js_error + string" where
  "io_use e header =
     (let cookies = (case header of None \<Rightarrow> [] | Some c \<Rightarrow> c);
          parsedCookie = cookie_parse e cookies;
          token = parsedCookie ''jwt''
      in case token of
           None \<Rightarrow> Inl (AuthError ''Authentication error, no token'')
         | Some t \<Rightarrow>
             if t = [] then Inl (AuthError ''Authentication error, no token'')
             else (case jwt_verify e t of
                     None \<Rightarrow> Inl (AuthError ''Authentication error, couldn't verify token'')
                   | Some userId \<Rightarrow> Inr userId))"

text \<open>
  \<^verbatim>\<open>
  io.on("connection", (socket) => {
        const userId = socket.userId;
        userMap[userId] = socket.id;
        socket.on("disconnect", (reason) => { delete userMap[userId]; });
        ...
  \<close>
\<close>

definition on_connection :: "server_state \<Rightarrow> socket \<Rightarrow> server_state" where
  "on_connection st sock =
     st\<lparr>userMap := (userMap st)(socket_userId sock \<mapsto> socket_id sock)\<rparr>"

definition on_disconnect :: "server_state \<Rightarrow> socket \<Rightarrow> server_state" where
  "on_disconnect st sock =
     st\<lparr>userMap := (userMap st)(socket_userId sock := None)\<rparr>"

text \<open>
  An incoming connection with socket id \<open>sid\<close>: the middleware runs first; when it
  calls \<^verbatim>\<open>next\<close> with an error the connection is refused and the
  \<^verbatim>\<open>connection\<close> handler never runs.
\<close>

datatype handshake_result = Refused js_error | Connected socket

definition connect :: "env \<Rightarrow> server_state \<Rightarrow> string option \<Rightarrow> string
    \<Rightarrow> server_state \<times> handshake_result" where
  "connect e st header sid =
     (case io_use e header of
        Inl err \<Rightarrow> (st, Refused err)
      | Inr userId \<Rightarrow>
          (let sock = \<lparr>socket_id = sid, socket_userId = userId\<rparr>
           in (on_connection st sock, Connected sock)))"

text \<open>The presence directory's lookup: \<^verbatim>\<open>userMap[id]\<close>.\<close>

definition lookup :: "server_state \<Rightarrow> string \<Rightarrow> string option" where
  "lookup st u = userMap st u"

text \<open>A run of connection and disconnect events over the directory.\<close>

datatype presence_event = Connect socket | Disconnect socket

fun presence_step :: "server_state \<Rightarrow> presence_event \<Rightarrow> server_state" where
  "presence_step st (Connect sock) = on_connection st sock"
| "presence_step st (Disconnect sock) = on_disconnect st sock"

definition presence_run :: "server_state \<Rightarrow> presence_event list \<Rightarrow> server_state" where
  "presence_run st evs = foldl presence_step st evs"

section \<open>Delivery: the sendMessage handler\<close>

text \<open>The payload of a \<^verbatim>\<open>sendMessage\<close> event; a missing field is \<open>None\<close>.\<close>

record messageData =
  data_sender :: "string option"
  data_recipient :: "string option"
  data_content :: "string option"
  data_messageType :: "string option"

text \<open>
  \<^verbatim>\<open>User.findById(id)\<close>: the id is cast first (a string that is no ObjectId
  throws CastError), then the collection is read; \<open>Inr None\<close> is the result
  \<^verbatim>\<open>null\<close> for an id no user has.
\<close>

definition User_findById :: "env \<Rightarrow> dbop \<Rightarrow> user list \<Rightarrow> string
    \<Rightarrow> js_error + user option" where
  "User_findById e opn us raw =
     (case castObjectId e raw of
        None \<Rightarrow> Inl CastError
      | Some i \<Rightarrow>
          if db_fails e opn then Inl DbError
          else Inr (find (\<lambda>u. user_id u = i) us))"

text \<open>
  The message document in memory, as \<^verbatim>\<open>new Message(...)\<close> builds it. A user
  document assigned to the paths \<open>sender\<close> and \<open>recipient\<close> (which refer to
  \<^verbatim>\<open>User\<close>) stays there as a populated document, with all its fields;
  \<^verbatim>\<open>null\<close> stays \<^verbatim>\<open>null\<close>.
\<close>

record message_document =
  doc_id :: string
  doc_sender :: "user option"
  doc_recipient :: "user option"
  doc_content :: string
  doc_messageType :: "string option"
  doc_timestamp :: int

text \<open>
  \<^verbatim>\<open>new Message({ sender: senderObject, recipient: recipientObject, content, messageType })\<close>:
  the document gets its \<^verbatim>\<open>_id\<close>, and \<open>timestamp\<close> takes its default.
\<close>

definition new_Message :: "env \<Rightarrow> user option \<Rightarrow> user option \<Rightarrow> string \<Rightarrow> string option
    \<Rightarrow> message_document" where
  "new_Message e senderObject recipientObject c mt =
     \<lparr>doc_id = new_ObjectId e,
      doc_sender = senderObject,
      doc_recipient = recipientObject,
      doc_content = c,
      doc_messageType = mt,
      doc_timestamp = Date_now e\<rparr>"

text \<open>
  The record the database stores for a document: a populated path is stored as the
  \<^verbatim>\<open>_id\<close> of the user document it holds.
\<close>

definition stored_record :: "message_document \<Rightarrow> message" where
  "stored_record doc =
     \<lparr>message_id = doc_id doc,
      sender = map_option user_id (doc_sender doc),
      recipient = map_option user_id (doc_recipient doc),
      content = doc_content doc,
      messageType = doc_messageType doc,
      timestamp = doc_timestamp doc\<rparr>"

text \<open>The schema's \<^verbatim>\<open>required: true\<close> on sender, recipient and content.\<close>

definition validate :: "message_document \<Rightarrow> bool" where
  "validate doc =
     (doc_sender doc \<noteq> None \<and> doc_recipient doc \<noteq> None \<and> doc_content doc \<noteq> [])"

text \<open>
  \<^verbatim>\<open>newMessage.save()\<close>: validation, then the insert of the document's record;
  either may throw.
\<close>

definition Message_save :: "env \<Rightarrow> message list \<Rightarrow> message_document
    \<Rightarrow> js_error + message list" where
  "Message_save e ms doc =
     (if \<not> validate doc then Inl ValidationError
      else if db_fails e SaveMessage then Inl DbError
      else Inr (ms @ [stored_record doc]))"

text \<open>
  An emitted event \<^verbatim>\<open>io.to(socketId).emit(name, payload)\<close>: the target socket id,
  the event's name and the payload, which is the document in memory (with its populated
  paths), not the stored record.
  \<^verbatim>\<open>
  if (userMap[recipient]) { io.to(userMap[recipient]).emit("receiveMessage", newMessage); }
  if (userMap[sender])    { io.to(userMap[sender]).emit("receiveMessage", newMessage); }
  \<close>
\<close>

type_synonym emit = "string \<times> string \<times> message_document"

definition fanout :: "(string \<Rightarrow> string option) \<Rightarrow> string \<Rightarrow> string \<Rightarrow> message_document
    \<Rightarrow> emit list" where
  "fanout um sender_id recipient_id newMessage =
     (if falsy (um recipient_id) then []
      else [(the (um recipient_id), ''receiveMessage'', newMessage)]) @
     (if falsy (um sender_id) then []
      else [(the (um sender_id), ''receiveMessage'', newMessage)])"

text \<open>
  How a run of the handler ends: the event is dropped by the field check; a
  \<^verbatim>\<open>findById\<close> outside the \<^verbatim>\<open>try\<close> throws and the handler's promise
  rejects; \<^verbatim>\<open>save\<close> throws and the \<^verbatim>\<open>catch\<close> logs it; or the message is
  saved.
\<close>

datatype send_outcome =
    Dropped
  | Rejected js_error
  | SaveFailed js_error
  | Sent message_document

text \<open>
  \<^verbatim>\<open>
  socket.on("sendMessage", async (messageData) => {
        const { sender, recipient, content, messageType } = messageData;
        if (!sender || !recipient || !content) {
        console.log("Missing message fields");
        return;
        }
        const senderObject = await User.findById(sender);
        const recipientObject = await User.findById(recipient);
        const newMessage = new Message({ sender: senderObject, recipient: recipientObject, content, messageType });
        try {
              await newMessage.save();
              if (userMap[recipient]) { io.to(userMap[recipient]).emit("receiveMessage", newMessage); }
              if (userMap[sender]) { io.to(userMap[sender]).emit("receiveMessage", newMessage); }
        }
        catch (error) { console.error("Error saving message:", error); }
  });
  \<close>
  The handler suspends at each \<^verbatim>\<open>await\<close>; \<open>evs\<close> are the connection and
  disconnect events that run while it is suspended. They change only \<open>userMap\<close>,
  which the handler reads only after \<^verbatim>\<open>save\<close> has returned, so they are applied
  before the fanout. A dropped event returns before the first \<^verbatim>\<open>await\<close>, so
  nothing runs in between. The result is the new state, the events emitted and the
  outcome.
\<close>

definition sendMessage :: "env \<Rightarrow> server_state \<Rightarrow> presence_event list \<Rightarrow> messageData
    \<Rightarrow> server_state \<times> emit list \<times> send_outcome" where
  "sendMessage e st evs messageData =
     (if falsy (data_sender messageData) \<or> falsy (data_recipient messageData)
         \<or> falsy (data_content messageData)
      then (st, [], Dropped)
      else
        (let sender_id = the (data_sender messageData);
             recipient_id = the (data_recipient messageData);
             st1 = presence_run st evs
         in case User_findById e FindSender (users st) sender_id of
              Inl err \<Rightarrow> (st1, [], Rejected err)
            | Inr senderObject \<Rightarrow>
               (case User_findById e FindRecipient (users st) recipient_id of
                  Inl err \<Rightarrow> (st1, [], Rejected err)
                | Inr recipientObject \<Rightarrow>
                   (let newMessage = new_Message e senderObject recipientObject
                          (the (data_content messageData)) (data_messageType messageData)
                    in case Message_save e (messages st) newMessage of
                         Inl err \<Rightarrow> (st1, [], SaveFailed err)
                       | Inr ms \<Rightarrow>
                           (st1\<lparr>messages := ms\<rparr>,
                            fanout (userMap st1) sender_id recipient_id newMessage,
                            Sent newMessage)))))"

section \<open>The request handlers\<close>

text \<open>A response \<^verbatim>\<open>res.status(n).json(body)\<close>.\<close>

datatype json =
    JMessage string
  | JMessages "message list"
  | JContacts "user list"
  | JEmptyArray

datatype response = Response nat json

text \<open>
  The filter
  \<^verbatim>\<open>{ $or: [ { sender: a, recipient: b }, { sender: b, recipient: a } ] }\<close>
  on a stored message, after the cast of both ids.
\<close>

definition pair_filter :: "string \<Rightarrow> string \<Rightarrow> message \<Rightarrow> bool" where
  "pair_filter a b m =
     ((sender m = Some a \<and> recipient m = Some b) \<or> (sender m = Some b \<and> recipient m = Some a))"

definition cast_pair :: "env \<Rightarrow> string \<Rightarrow> string \<Rightarrow> js_error + string \<times> string" where
  "cast_pair e x y =
     (case castObjectId e x of
        None \<Rightarrow> Inl CastError
      | Some a \<Rightarrow>
          (case castObjectId e y of
             None \<Rightarrow> Inl CastError
           | Some b \<Rightarrow> Inr (a, b)))"

text \<open>\<^verbatim>\<open>Message.find({ $or: ... }).sort({ timestamp: 1 })\<close>.\<close>

definition Message_find_pair :: "env \<Rightarrow> message list \<Rightarrow> string \<Rightarrow> string
    \<Rightarrow> js_error + message list" where
  "Message_find_pair e ms userId contactId =
     (case cast_pair e userId contactId of
        Inl err \<Rightarrow> Inl err
      | Inr (a, b) \<Rightarrow>
          if db_fails e FindMessages then Inl DbError
          else Inr (sort_key timestamp (filter (pair_filter a b) ms)))"

text \<open>
  \<^verbatim>\<open>
  const getMessages = async (req, res) => {
        try {
              const contactId = req.body.id;
              if (!contactId) {
                    return res.status(400).json({ message: "Missing one or both user IDs" });
              }
              const messages = await Message.find({ $or: [
                          { sender: req.userId, recipient: contactId },
                          { sender: contactId, recipient: req.userId } ]
              }).sort({ timestamp: 1 });
              res.status(200).json({ messages });
        }
        catch (error) { res.status(500).json({ message: "Server or database issue" }); }
  };
  \<close>
  \<open>userId\<close> is \<^verbatim>\<open>req.userId\<close>, set by \<^verbatim>\<open>verifyToken\<close>; \<open>body_id\<close>
  is \<^verbatim>\<open>req.body.id\<close>.
\<close>

definition getMessages :: "env \<Rightarrow> server_state \<Rightarrow> string \<Rightarrow> string option \<Rightarrow> response" where
  "getMessages e st userId body_id =
     (if falsy body_id then Response 400 (JMessage ''Missing one or both user IDs'')
      else (case Message_find_pair e (messages st) userId (the body_id) of
              Inl err \<Rightarrow> Response 500 (JMessage ''Server or database issue'')
            | Inr ms \<Rightarrow> Response 200 (JMessages ms)))"

text \<open>\<^verbatim>\<open>Message.deleteMany({ $or: ... })\<close>: the collection without the matches.\<close>

definition Message_deleteMany_pair :: "env \<Rightarrow> message list \<Rightarrow> string \<Rightarrow> string
    \<Rightarrow> js_error + message list" where
  "Message_deleteMany_pair e ms userId dmId =
     (case cast_pair e userId dmId of
        Inl err \<Rightarrow> Inl err
      | Inr (a, b) \<Rightarrow>
          if db_fails e DeleteMessages then Inl DbError
          else Inr (filter (\<lambda>m. \<not> pair_filter a b m) ms))"

text \<open>
  \<^verbatim>\<open>
  const deleteDm = async (req, res) => {
        try {
              const { dmId } = req.params;
              if (!dmId) {
                    return res.status(400).json({ message: "Missing or invalid dmId" });
              }
              const deletedMessages = await Message.deleteMany({ $or: [
                          { sender: req.userId, recipient: dmId },
                          { sender: dmId, recipient: req.userId } ] });
              res.status(200).json({ message: "DM deleted successfully" });
        }
        catch (error) { res.status(500).json({ message: "Server or database issue" }); }
  };
  \<close>
\<close>

definition deleteDm :: "env \<Rightarrow> server_state \<Rightarrow> string \<Rightarrow> string option
    \<Rightarrow> server_state \<times> response" where
  "deleteDm e st userId dmId =
     (if falsy dmId then (st, Response 400 (JMessage ''Missing or invalid dmId''))
      else (case Message_deleteMany_pair e (messages st) userId (the dmId) of
              Inl err \<Rightarrow> (st, Response 500 (JMessage ''Server or database issue''))
            | Inr ms \<Rightarrow> (st\<lparr>messages := ms\<rparr>, Response 200 (JMessage ''DM deleted successfully''))))"

section \<open>The contact list: getContacts\<close>

text \<open>
  \<^verbatim>\<open>
  const messages = await Message.find({
        $or: [{ sender: currentUserId }, { receiver: currentUserId }]
  }).sort({ timestamp: -1 });
  \<close>
  The second clause names the path \<^verbatim>\<open>receiver\<close>; the schema's path is
  \<^verbatim>\<open>recipient\<close>. What it matches is the parameter \<open>receiver_clause\<close>.
\<close>

definition Message_find_contacts :: "env \<Rightarrow> message list \<Rightarrow> string \<Rightarrow> js_error + message list" where
  "Message_find_contacts e ms currentUserId =
     (case castObjectId e currentUserId of
        None \<Rightarrow> Inl CastError
      | Some a \<Rightarrow>
          if db_fails e FindMessages then Inl DbError
          else Inr (sort_key (\<lambda>m. - timestamp m)
                 (filter (\<lambda>m. sender m = Some a \<or> receiver_clause e currentUserId m) ms)))"

text \<open>
  The methods of a string that the handlers could mean, by name: \<^verbatim>\<open>toString\<close> and
  \<^verbatim>\<open>valueOf\<close> return the string. Property names are case sensitive; a name that
  is no property of a string reads as \<^verbatim>\<open>undefined\<close> (\<open>None\<close>).
\<close>

definition String_prototype :: "string \<Rightarrow> (string \<Rightarrow> string) option" where
  "String_prototype name =
     (if name = ''toString'' \<or> name = ''valueOf'' then Some (\<lambda>s. s) else None)"

text \<open>
  A method call \<^verbatim>\<open>s?.name()\<close> on a string \<open>s\<close>: the optional chain stops only
  when \<open>s\<close> itself is \<^verbatim>\<open>null\<close> or \<^verbatim>\<open>undefined\<close>, which a string is not;
  calling a property that is \<^verbatim>\<open>undefined\<close> throws a TypeError.
\<close>

definition method_call :: "string \<Rightarrow> string \<Rightarrow> js_error + string" where
  "method_call s name =
     (case String_prototype name of
        None \<Rightarrow> Inl TypeError
      | Some f \<Rightarrow> Inr (f s))"

text \<open>
  \<^verbatim>\<open>currentUserId?.tostring()\<close>: \<open>currentUserId\<close> is a non-empty string here (the
  handler has returned 400 otherwise).
\<close>

definition tostring_call :: "string \<Rightarrow> js_error + string" where
  "tostring_call currentUserId = method_call currentUserId ''tostring''"

text \<open>
  \<^verbatim>\<open>msg.receiver?._id\<close>: a message document has no property \<^verbatim>\<open>receiver\<close>,
  so the value is \<^verbatim>\<open>undefined\<close>.
\<close>

definition msg_receiver :: "message \<Rightarrow> string option" where
  "msg_receiver m = None"

text \<open>\<^verbatim>\<open>userIds.add(x)\<close> on a Set, which keeps insertion order.\<close>

definition Set_add :: "'a \<Rightarrow> 'a list \<Rightarrow> 'a list" where
  "Set_add x xs = (if x \<in> set xs then xs else xs @ [x])"

text \<open>
  The callback of \<^verbatim>\<open>messages.forEach\<close>:
  \<^verbatim>\<open>
  if (msg.sender?._id !== currentUserId?.tostring()) userIds.add(msg.sender?._id);
  if (msg.receiver?._id !== currentUserId?.tostring()) userIds.add(msg.receiver?._id);
  \<close>
  Each comparison evaluates its right operand, the method call. Identities are compared
  as strings here and in the rest of the handler.
\<close>

definition collect_step :: "string \<Rightarrow> message \<Rightarrow> string option list
    \<Rightarrow> js_error + string option list" where
  "collect_step currentUserId msg userIds =
     (case tostring_call currentUserId of
        Inl err \<Rightarrow> Inl err
      | Inr s1 \<Rightarrow>
          (let userIds1 = (if sender msg \<noteq> Some s1 then Set_add (sender msg) userIds
                           else userIds)
           in case tostring_call currentUserId of
                Inl err \<Rightarrow> Inl err
              | Inr s2 \<Rightarrow>
                  Inr (if msg_receiver msg \<noteq> Some s2 then Set_add (msg_receiver msg) userIds1
                       else userIds1)))"

fun forEach_collect :: "string \<Rightarrow> message list \<Rightarrow> string option list
    \<Rightarrow> js_error + string option list" where
  "forEach_collect currentUserId [] userIds = Inr userIds"
| "forEach_collect currentUserId (msg # rest) userIds =
     (case collect_step currentUserId msg userIds of
        Inl err \<Rightarrow> Inl err
      | Inr userIds1 \<Rightarrow> forEach_collect currentUserId rest userIds1)"

text \<open>\<^verbatim>\<open>User.find({ _id: { $in: uniqueUserIds } }, ...)\<close>.\<close>

definition User_find_in :: "env \<Rightarrow> user list \<Rightarrow> string option list \<Rightarrow> js_error + user list" where
  "User_find_in e us uniqueUserIds =
     (if db_fails e FindUsers then Inl DbError
      else Inr (filter (\<lambda>u. Some (user_id u) \<in> set uniqueUserIds) us))"

text \<open>
  The comparator's \<^verbatim>\<open>messages.find(msg => msg.sender?.toString() === a._id.toString()
  || msg.receiver?.toString() === a._id.toString())\<close>.
\<close>

definition lastMessage :: "message list \<Rightarrow> user \<Rightarrow> message option" where
  "lastMessage ms a =
     find (\<lambda>msg. sender msg = Some (user_id a) \<or> msg_receiver msg = Some (user_id a)) ms"

text \<open>
  \<^verbatim>\<open>users.sort((a, b) => ... new Date(lastMessageB.timestamp) - new Date(lastMessageA.timestamp))\<close>:
  with fewer than two users the comparator is never called; otherwise it is called on
  every user, and reading \<^verbatim>\<open>timestamp\<close> of \<^verbatim>\<open>undefined\<close> throws.
\<close>

definition sort_contacts :: "message list \<Rightarrow> user list \<Rightarrow> js_error + user list" where
  "sort_contacts ms us =
     (if length us \<le> 1 then Inr us
      else if list_ex (\<lambda>u. lastMessage ms u = None) us then Inl TypeError
      else Inr (sort_key (\<lambda>u. - timestamp (the (lastMessage ms u))) us))"

text \<open>
  \<^verbatim>\<open>
  const getContacts = async (req, res) => {
        try {
              const currentUserId = req.userId;
              if (!currentUserId) {
                    return res.status(400).json({ message: "No user ID found in token" })
              };
              const messages = await Message.find({ ... }).sort({ timestamp: -1 });
              if (!messages.length) {
                    return res.status(200).json([]);
              }
              const userIds = new Set();
              messages.forEach(msg => { ... });
              const uniqueUserIds = Array.from(userIds);
              const users = await User.find({ _id: { $in: uniqueUserIds } }, "_id firstName lastName email color");
              const sortedContacts = users.sort((a, b) => { ... });
              res.status(200).json({ contacts: sortedContacts });
        }
        catch (error) { res.status(500).json({ message: "Server or database issue" }); }
  };
  \<close>
\<close>

definition getContacts :: "env \<Rightarrow> server_state \<Rightarrow> string option \<Rightarrow> response" where
  "getContacts e st req_userId =
     (if falsy req_userId then Response 400 (JMessage ''No user ID found in token'')
      else
        (let currentUserId = the req_userId
         in case Message_find_contacts e (messages st) currentUserId of
              Inl err \<Rightarrow> Response 500 (JMessage ''Server or database issue'')
            | Inr msgs \<Rightarrow>
                if length msgs = 0 then Response 200 JEmptyArray
                else
                  (case forEach_collect currentUserId msgs [] of
                     Inl err \<Rightarrow> Response 500 (JMessage ''Server or database issue'')
                   | Inr userIds \<Rightarrow>
                      (case User_find_in e (users st) userIds of
                         Inl err \<Rightarrow> Response 500 (JMessage ''Server or database issue'')
                       | Inr us \<Rightarrow>
                          (case sort_contacts msgs us of
                             Inl err \<Rightarrow> Response 500 (JMessage ''Server or database issue'')
                           | Inr sortedContacts \<Rightarrow>
                               Response 200 (JContacts sortedContacts))))))"

text \<open>
  The token a handshake carries: the value of the cookie \<^verbatim>\<open>jwt\<close> in the
  handshake's cookie header, as the middleware reads it.
\<close>

definition handshake_token :: "env \<Rightarrow> string option \<Rightarrow> string option" where
  "handshake_token e header =
     cookie_parse e (case header of None \<Rightarrow> [] | Some c \<Rightarrow> c) ''jwt''"

section \<open>Sample data\<close>

text \<open>
  A concrete environment and concrete states, on which the theorems below are
  evaluated: three users, a cast that accepts the 24-digit hexadecimal strings, a
  database that answers, a query layer that matches nothing for the unknown path, and a
  token verifier that accepts one token, issued to the first user.
\<close>

definition isObjectIdString :: "string \<Rightarrow> bool" where
  "isObjectIdString s = (length s = 24 \<and> list_all (\<lambda>c. c \<in> set ''0123456789abcdef'') s)"

definition idA :: string where "idA = ''aaaaaaaaaaaaaaaaaaaaaaaa''"
definition idB :: string where "idB = ''bbbbbbbbbbbbbbbbbbbbbbbb''"
definition idC :: string where "idC = ''cccccccccccccccccccccccc''"
definition idD :: string where "idD = ''dddddddddddddddddddddddd''"

definition env0 :: env where
  "env0 =
     \<lparr>castObjectId = (\<lambda>s. if isObjectIdString s then Some s else None),
      receiver_clause = (\<lambda>uid m. False),
      db_fails = (\<lambda>opn. False),
      cookie_parse = (\<lambda>c. if c = ''jwt=tokenA''
                           then (\<lambda>k. if k = ''jwt'' then Some ''tokenA'' else None)
                           else (\<lambda>k. None)),
      jwt_verify = (\<lambda>t. if t = ''tokenA'' then Some idA else None),
      Date_now = 3,
      new_ObjectId = ''000000000000000000000003''\<rparr>"

definition mk_user :: "string \<Rightarrow> user" where
  "mk_user i =
     \<lparr>user_id = i, email = i @ ''@example.com'', password = ''hash'',
      firstName = None, lastName = None, color = None, profileSetup = False\<rparr>"

definition mk_message :: "string \<Rightarrow> string \<Rightarrow> string \<Rightarrow> int \<Rightarrow> message" where
  "mk_message i a b t =
     \<lparr>message_id = i, sender = Some a, recipient = Some b, content = ''hi'',
      messageType = None, timestamp = t\<rparr>"

definition mk_data :: "string option \<Rightarrow> string option \<Rightarrow> string option \<Rightarrow> messageData" where
  "mk_data a b c =
     \<lparr>data_sender = a, data_recipient = b, data_content = c, data_messageType = None\<rparr>"

text \<open>No connection, the three users, no message.\<close>

definition state_empty :: server_state where
  "state_empty =
     \<lparr>userMap = (\<lambda>u. None), users = [mk_user idA, mk_user idB, mk_user idC], messages = []\<rparr>"

text \<open>
  The first user has sent a message to the second at time 1 and one to the third at
  time 2.
\<close>

definition state_two :: server_state where
  "state_two =
     state_empty\<lparr>messages := [mk_message ''000000000000000000000001'' idA idB 1,
                               mk_message ''000000000000000000000002'' idA idC 2]\<rparr>"

text \<open>The first two users are connected, on the sockets \<open>sockA\<close> and \<open>sockB\<close>.\<close>

definition state_online :: server_state where
  "state_online =
     state_empty\<lparr>userMap := (\<lambda>u. if u = idA then Some ''sockA''
                                   else if u = idB then Some ''sockB'' else None)\<rparr>"

text \<open>The sample environment with a database that rejects the insert of a message.\<close>

definition env_save_fails :: env where
  "env_save_fails = env0\<lparr>db_fails := (\<lambda>opn. opn = SaveMessage)\<rparr>"

text \<open>
  The document the sample environment creates for given sender and recipient, and the
  record stored for it.
\<close>

definition doc3 :: "string \<Rightarrow> string \<Rightarrow> message_document" where
  "doc3 a b =
     \<lparr>doc_id = ''000000000000000000000003'', doc_sender = Some (mk_user a),
      doc_recipient = Some (mk_user b), doc_content = ''hi'', doc_messageType = None,
      doc_timestamp = 3\<rparr>"

definition msg3 :: "string \<Rightarrow> string \<Rightarrow> message" where
  "msg3 a b = mk_message ''000000000000000000000003'' a b 3"

text \<open>
  An environment whose cast reads hexadecimal digits in either case, as an ObjectId
  does, and gives the id in lower case; and the second user's id in upper case.
\<close>

definition lower_hex :: "char \<Rightarrow> char" where
  "lower_hex c =
     (if c = CHR ''A'' then CHR ''a'' else if c = CHR ''B'' then CHR ''b''
      else if c = CHR ''C'' then CHR ''c'' else if c = CHR ''D'' then CHR ''d''
      else if c = CHR ''E'' then CHR ''e'' else if c = CHR ''F'' then CHR ''f'' else c)"

definition env_fold :: env where
  "env_fold =
     env0\<lparr>castObjectId := (\<lambda>s. if isObjectIdString (map lower_hex s)
                                then Some (map lower_hex s) else None)\<rparr>"

definition idB_upper :: string where "idB_upper = ''BBBBBBBBBBBBBBBBBBBBBBBB''"

text \<open>
  A store with four messages, not in the order of their timestamps: three between
  the first two users, in both directions, and one from the first to the third.
\<close>

definition state_history :: server_state where
  "state_history =
     state_online\<lparr>messages := [mk_message ''000000000000000000000005'' idA idB 5,
                                mk_message ''000000000000000000000002'' idB idA 2,
                                mk_message ''000000000000000000000003'' idA idC 3,
                                mk_message ''000000000000000000000004'' idB idA 4]\<rparr>"

section \<open>Presence directory\<close>

lemma lookup_on_connection:
  "lookup (on_connection st sock) u =
     (if u = socket_userId sock then Some (socket_id sock) else lookup st u)"
  by (simp add: lookup_def on_connection_def)

lemma lookup_on_disconnect:
  "lookup (on_disconnect st sock) u =
     (if u = socket_userId sock then None else lookup st u)"
  by (simp add: lookup_def on_disconnect_def)

text \<open>
  Claim C5. The presence directory holds at most one connection handle per user
  identity at every instant. A connection with handle \<open>h\<close> that completes the handshake
  for identity \<open>U\<close> is registered, so that the lookup of \<open>U\<close> gives \<open>h\<close> (stated for
  the connection handler alone and for the whole handshake \<open>connect\<close>, which leaves the
  state as it was when the handshake is refused); a second handshake for the same
  identity overwrites the first registration; after the disconnect of a connection of
  \<open>U\<close> the lookup of \<open>U\<close> gives nothing.
\<close>

theorem presence_directory:
  "lookup (on_connection st \<lparr>socket_id = h, socket_userId = U\<rparr>) U = Some h
   \<and> (case connect e st header h of
        (st', Connected sock) \<Rightarrow>
          io_use e header = Inr (socket_userId sock) \<and> socket_id sock = h
          \<and> lookup st' (socket_userId sock) = Some h
      | (st', Refused err) \<Rightarrow> st' = st)
   \<and> lookup (on_connection (on_connection st \<lparr>socket_id = h1, socket_userId = U\<rparr>)
               \<lparr>socket_id = h2, socket_userId = U\<rparr>) U = Some h2
   \<and> lookup (on_disconnect st \<lparr>socket_id = h, socket_userId = U\<rparr>) U = None
   \<and> card {x. lookup (presence_run st evs) U = Some x} \<le> 1"
proof -
  have one: "card {x. lookup (presence_run st evs) U = Some x} \<le> 1"
  proof (cases "lookup (presence_run st evs) U")
    case None
    then show ?thesis by simp
  next
    case (Some y)
    then have "{x. lookup (presence_run st evs) U = Some x} = {y}" by auto
    then show ?thesis by simp
  qed
  have hs: "(case connect e st header h of
        (st', Connected sock) \<Rightarrow>
          io_use e header = Inr (socket_userId sock) \<and> socket_id sock = h
          \<and> lookup st' (socket_userId sock) = Some h
      | (st', Refused err) \<Rightarrow> st' = st)"
    by (cases "io_use e header") (simp_all add: connect_def Let_def lookup_on_connection)
  show ?thesis
    using one hs by (simp add: lookup_on_connection lookup_on_disconnect)
qed

text \<open>
  The theorem at the sample data: the first user connects with the accepted token on
  socket \<open>sockA\<close>, connects again on \<open>sockA2\<close>, and disconnects.
\<close>

theorem presence_directory_witness:
  "connect env0 state_empty (Some ''jwt=tokenA'') ''sockA''
     = (on_connection state_empty \<lparr>socket_id = ''sockA'', socket_userId = idA\<rparr>,
        Connected \<lparr>socket_id = ''sockA'', socket_userId = idA\<rparr>)
   \<and> lookup (fst (connect env0 state_empty (Some ''jwt=tokenA'') ''sockA'')) idA = Some ''sockA''
   \<and> lookup (on_connection (on_connection state_empty \<lparr>socket_id = ''sockA'', socket_userId = idA\<rparr>)
               \<lparr>socket_id = ''sockA2'', socket_userId = idA\<rparr>) idA = Some ''sockA2''
   \<and> lookup (on_disconnect (on_connection state_empty \<lparr>socket_id = ''sockA'', socket_userId = idA\<rparr>)
        \<lparr>socket_id = ''sockA'', socket_userId = idA\<rparr>) idA = None"
proof -
  have c: "connect env0 state_empty (Some ''jwt=tokenA'') ''sockA''
     = (on_connection state_empty \<lparr>socket_id = ''sockA'', socket_userId = idA\<rparr>,
        Connected \<lparr>socket_id = ''sockA'', socket_userId = idA\<rparr>)"
    by (simp add: connect_def io_use_def env0_def Let_def)
  show ?thesis
    using presence_directory [of state_empty "''sockA''" idA env0 "Some ''jwt=tokenA''"
        "''sockA''" "''sockA2''" "[]"]
      presence_directory [of "on_connection state_empty \<lparr>socket_id = ''sockA'', socket_userId = idA\<rparr>"
        "''sockA''" idA env0 None "''sockA''" "''sockA2''" "[]"]
    by (simp add: c)
qed

lemma userMap_on_connection:
  "userMap (on_connection st sock) = (userMap st)(socket_userId sock \<mapsto> socket_id sock)"
  by (simp add: on_connection_def)

lemma userMap_on_disconnect:
  "userMap (on_disconnect st sock) = (userMap st)(socket_userId sock := None)"
  by (simp add: on_disconnect_def)

text \<open>
  Claim C10. The disconnect handler deletes the directory's entry of its user identity
  whatever that entry holds: after any state, the disconnect of a connection \<open>h1\<close> of
  \<open>U\<close> leaves the lookup of \<open>U\<close> empty. In particular after \<open>h1\<close> registers for
  \<open>U\<close>, \<open>h2\<close> registers for \<open>U\<close> and then \<open>h1\<close> disconnects, the lookup of \<open>U\<close>
  gives nothing although \<open>h2\<close> is still connected, and the fanout of a message from any
  \<open>A\<close> to \<open>U\<close> emits nothing for \<open>U\<close>: the only event left is the sender's copy.
\<close>

theorem disconnect_unconditional:
  "lookup (on_disconnect st \<lparr>socket_id = h1, socket_userId = U\<rparr>) U = None
   \<and> lookup (presence_run st
        [Connect \<lparr>socket_id = h1, socket_userId = U\<rparr>,
         Connect \<lparr>socket_id = h2, socket_userId = U\<rparr>,
         Disconnect \<lparr>socket_id = h1, socket_userId = U\<rparr>]) U = None
   \<and> fanout (userMap (presence_run st
        [Connect \<lparr>socket_id = h1, socket_userId = U\<rparr>,
         Connect \<lparr>socket_id = h2, socket_userId = U\<rparr>,
         Disconnect \<lparr>socket_id = h1, socket_userId = U\<rparr>])) A U m
       = (if falsy (userMap st A) \<or> A = U then [] else [(the (userMap st A), ''receiveMessage'', m)])"
  by (simp add: presence_run_def lookup_on_disconnect fanout_def falsy_def
      userMap_on_disconnect userMap_on_connection)

text \<open>
  The theorem at the sample data: the first user connects on \<open>sockA\<close>, then on
  \<open>sockA2\<close>, which is then the registered handle; \<open>sockA\<close> disconnects, and a message
  from the second user to the first is pushed to nobody.
\<close>

theorem disconnect_unconditional_witness:
  "lookup (on_connection (on_connection state_empty \<lparr>socket_id = ''sockA'', socket_userId = idA\<rparr>)
        \<lparr>socket_id = ''sockA2'', socket_userId = idA\<rparr>) idA = Some ''sockA2''
   \<and> lookup (presence_run state_empty
        [Connect \<lparr>socket_id = ''sockA'', socket_userId = idA\<rparr>,
         Connect \<lparr>socket_id = ''sockA2'', socket_userId = idA\<rparr>,
         Disconnect \<lparr>socket_id = ''sockA'', socket_userId = idA\<rparr>]) idA = None
   \<and> fanout (userMap (presence_run state_empty
        [Connect \<lparr>socket_id = ''sockA'', socket_userId = idA\<rparr>,
         Connect \<lparr>socket_id = ''sockA2'', socket_userId = idA\<rparr>,
         Disconnect \<lparr>socket_id = ''sockA'', socket_userId = idA\<rparr>])) idB idA
        (doc3 idB idA) = []"
  using disconnect_unconditional [of state_empty "''sockA''" idA "''sockA2''" idB
      "doc3 idB idA"]
  by (simp add: lookup_on_connection state_empty_def falsy_def)

section \<open>The handshake\<close>

text \<open>
  Claim C6. When the handshake of an incoming connection carries no token, or a token
  that the verifier rejects, the middleware passes an authentication error, the
  connection is refused, and the state (the presence directory with it) is what it was.
\<close>

theorem handshake_rejects:
  assumes "falsy (handshake_token e header)
           \<or> jwt_verify e (the (handshake_token e header)) = None"
  shows "\<exists>msg. io_use e header = Inl (AuthError msg)
               \<and> connect e st header sid = (st, Refused (AuthError msg))"
  using assms
  by (auto simp: connect_def io_use_def handshake_token_def falsy_def Let_def
      split: option.splits)

text \<open>
  The theorem at the sample data: a handshake without a cookie header is refused and
  the state stays; a handshake with the accepted token is not refused.
\<close>

theorem handshake_rejects_witness:
  "falsy (handshake_token env0 None)
   \<and> connect env0 state_online None ''sockC''
       = (state_online, Refused (AuthError ''Authentication error, no token''))
   \<and> \<not> falsy (handshake_token env0 (Some ''jwt=tokenA''))
   \<and> connect env0 state_online (Some ''jwt=tokenA'') ''sockC'' \<noteq>
       (state_online, Refused (AuthError ''Authentication error, no token''))"
proof -
  have f: "falsy (handshake_token env0 None)"
    by (simp add: handshake_token_def env0_def falsy_def)
  have g: "\<not> falsy (handshake_token env0 (Some ''jwt=tokenA''))"
    by (simp add: handshake_token_def env0_def falsy_def)
  have c: "connect env0 state_online (Some ''jwt=tokenA'') ''sockC'' \<noteq>
       (state_online, Refused (AuthError ''Authentication error, no token''))"
    by (simp add: connect_def io_use_def env0_def Let_def)
  from handshake_rejects [of env0 None state_online "''sockC''"] f
  obtain msg where m: "io_use env0 None = Inl (AuthError msg)"
      "connect env0 state_online None ''sockC'' = (state_online, Refused (AuthError msg))"
    by blast
  have "io_use env0 None = Inl (AuthError ''Authentication error, no token'')"
    by (simp add: io_use_def env0_def Let_def)
  with m have "msg = ''Authentication error, no token''" by simp
  with m f g c show ?thesis by simp
qed

section \<open>The sendMessage handler\<close>

text \<open>
  Claim C2. A \<^verbatim>\<open>sendMessage\<close> event whose sender, recipient or content field is
  missing is dropped: the state is unchanged (no message is stored), nothing is
  emitted, and every later history fetch answers what it would have answered without
  the event.
\<close>

theorem sendMessage_missing_field_dropped:
  assumes "data_sender d = None \<or> data_recipient d = None \<or> data_content d = None"
  shows "sendMessage e st evs d = (st, [], Dropped)
         \<and> getMessages e' (fst (sendMessage e st evs d)) u c = getMessages e' st u c"
proof -
  from assms have "falsy (data_sender d) \<or> falsy (data_recipient d) \<or> falsy (data_content d)"
    by (auto simp: falsy_def)
  then have "sendMessage e st evs d = (st, [], Dropped)"
    by (simp add: sendMessage_def)
  then show ?thesis by simp
qed

text \<open>
  The theorem at the sample data: an event without recipient, one without content and
  one without sender, each dropped; the history between the first two users stays
  empty.
\<close>

theorem sendMessage_missing_field_dropped_witness:
  "sendMessage env0 state_online [] (mk_data (Some idA) None (Some ''hi'')) = (state_online, [], Dropped)
   \<and> sendMessage env0 state_online [] (mk_data (Some idA) (Some idB) None) = (state_online, [], Dropped)
   \<and> sendMessage env0 state_online [] (mk_data None (Some idB) (Some ''hi'')) = (state_online, [], Dropped)
   \<and> getMessages env0 (fst (sendMessage env0 state_online [] (mk_data (Some idA) None (Some ''hi''))))
        idA (Some idB) = Response 200 (JMessages [])"
proof -
  have g: "getMessages env0 state_online idA (Some idB) = Response 200 (JMessages [])"
    by (simp add: getMessages_def Message_find_pair_def cast_pair_def env0_def falsy_def
        isObjectIdString_def idA_def idB_def state_online_def state_empty_def)
  show ?thesis
    using sendMessage_missing_field_dropped [of "mk_data (Some idA) None (Some ''hi'')" env0
        state_online "[]" env0 idA "Some idB"]
      sendMessage_missing_field_dropped [of "mk_data (Some idA) (Some idB) None" env0
        state_online "[]" env0 idA "Some idB"]
      sendMessage_missing_field_dropped [of "mk_data None (Some idB) (Some ''hi'')" env0
        state_online "[]" env0 idA "Some idB"]
    by (simp add: mk_data_def g)
qed

lemma messages_presence_run [simp]: "messages (presence_run st evs) = messages st"
proof -
  have "messages (foldl presence_step st evs) = messages st"
  proof (induction evs arbitrary: st)
    case Nil
    show ?case by simp
  next
    case (Cons ev evs)
    have "messages (presence_step st ev) = messages st"
      by (cases ev) (simp_all add: on_connection_def on_disconnect_def)
    with Cons show ?case by simp
  qed
  then show ?thesis by (simp add: presence_run_def)
qed

lemma users_presence_run [simp]: "users (presence_run st evs) = users st"
proof -
  have "users (foldl presence_step st evs) = users st"
  proof (induction evs arbitrary: st)
    case Nil
    show ?case by simp
  next
    case (Cons ev evs)
    have "users (presence_step st ev) = users st"
      by (cases ev) (simp_all add: on_connection_def on_disconnect_def)
    with Cons show ?case by simp
  qed
  then show ?thesis by (simp add: presence_run_def)
qed

text \<open>The handler's result, by the branch it takes.\<close>

lemma sendMessage_cases:
  assumes "sendMessage e st evs d = (st', ems, out)"
  shows "(out = Dropped \<and> st' = st \<and> ems = []
            \<and> (falsy (data_sender d) \<or> falsy (data_recipient d) \<or> falsy (data_content d)))
       \<or> (\<exists>err. out = Rejected err \<and> st' = presence_run st evs \<and> ems = []
            \<and> (User_findById e FindSender (users st) (the (data_sender d)) = Inl err
               \<or> User_findById e FindRecipient (users st) (the (data_recipient d)) = Inl err))
       \<or> (\<exists>err so ro. out = SaveFailed err \<and> st' = presence_run st evs \<and> ems = []
            \<and> User_findById e FindSender (users st) (the (data_sender d)) = Inr so
            \<and> User_findById e FindRecipient (users st) (the (data_recipient d)) = Inr ro
            \<and> Message_save e (messages st)
                 (new_Message e so ro (the (data_content d)) (data_messageType d)) = Inl err)
       \<or> (\<exists>m so ro. out = Sent m
            \<and> User_findById e FindSender (users st) (the (data_sender d)) = Inr so
            \<and> User_findById e FindRecipient (users st) (the (data_recipient d)) = Inr ro
            \<and> m = new_Message e so ro (the (data_content d)) (data_messageType d)
            \<and> Message_save e (messages st) m = Inr (messages st')
            \<and> st' = (presence_run st evs)\<lparr>messages := messages st'\<rparr>
            \<and> ems = fanout (userMap (presence_run st evs)) (the (data_sender d))
                      (the (data_recipient d)) m)"
  using assms
  by (auto simp: sendMessage_def Let_def split: if_splits sum.splits)


lemma User_findById_Some:
  assumes "User_findById e opn us raw = Inr (Some u)"
  shows "u \<in> set us \<and> castObjectId e raw = Some (user_id u)"
proof -
  from assms obtain i where i: "castObjectId e raw = Some i"
      and f: "find (\<lambda>u. user_id u = i) us = Some u"
    by (auto simp: User_findById_def split: option.splits if_splits)
  from f have "u \<in> set us \<and> user_id u = i"
    by (auto simp: find_Some_iff)
  with i show ?thesis by simp
qed

lemma Message_save_Inr:
  "Message_save e ms m = Inr ms' \<Longrightarrow> validate m \<and> ms' = ms @ [stored_record m]"
  by (auto simp: Message_save_def split: if_splits)

text \<open>
  Claim C3. For an event that reaches the persistence step (the three fields are
  there and both \<^verbatim>\<open>findById\<close> calls returned): when \<^verbatim>\<open>save\<close> throws, the
  handler ends in its \<^verbatim>\<open>catch\<close>, nothing is emitted and the stored messages are
  unchanged. And whenever the handler emits anything, the message was saved before:
  the outcome is \<open>Sent m\<close> for the document \<open>m\<close>, \<^verbatim>\<open>save\<close> returned, and every
  emitted event is a \<^verbatim>\<open>receiveMessage\<close> carrying \<open>m\<close>.
\<close>

theorem save_failure_no_fanout:
  assumes run: "sendMessage e st evs d = (st', ems, out)"
  shows "(\<forall>so ro err.
            \<not> falsy (data_sender d) \<and> \<not> falsy (data_recipient d) \<and> \<not> falsy (data_content d)
            \<and> User_findById e FindSender (users st) (the (data_sender d)) = Inr so
            \<and> User_findById e FindRecipient (users st) (the (data_recipient d)) = Inr ro
            \<and> Message_save e (messages st)
                 (new_Message e so ro (the (data_content d)) (data_messageType d)) = Inl err
            \<longrightarrow> out = SaveFailed err \<and> ems = [] \<and> messages st' = messages st)
       \<and> (ems \<noteq> [] \<longrightarrow>
            (\<exists>m. out = Sent m \<and> Message_save e (messages st) m = Inr (messages st')
                \<and> list_all (\<lambda>x. x = (fst x, ''receiveMessage'', m)) ems))"
proof -
  have a: "out = SaveFailed err \<and> ems = [] \<and> messages st' = messages st"
    if "\<not> falsy (data_sender d)" "\<not> falsy (data_recipient d)" "\<not> falsy (data_content d)"
      "User_findById e FindSender (users st) (the (data_sender d)) = Inr so"
      "User_findById e FindRecipient (users st) (the (data_recipient d)) = Inr ro"
      "Message_save e (messages st)
         (new_Message e so ro (the (data_content d)) (data_messageType d)) = Inl err"
    for so ro err
    using run that by (auto simp: sendMessage_def Let_def)
  have b: "\<exists>m. out = Sent m \<and> Message_save e (messages st) m = Inr (messages st')
                \<and> list_all (\<lambda>x. x = (fst x, ''receiveMessage'', m)) ems"
    if "ems \<noteq> []"
    using sendMessage_cases [OF run] that
    by (auto simp: fanout_def)
  from a b show ?thesis by blast
qed

text \<open>Facts about the sample data, for evaluation.\<close>

lemma ids_nonempty [simp]: "idA \<noteq> []" "idB \<noteq> []" "idC \<noteq> []" "idD \<noteq> []"
  by (simp_all add: idA_def idB_def idC_def idD_def)

lemma ids_distinct [simp]:
  "idA \<noteq> idB" "idA \<noteq> idC" "idA \<noteq> idD" "idB \<noteq> idA" "idB \<noteq> idC" "idB \<noteq> idD"
  "idC \<noteq> idA" "idC \<noteq> idB" "idC \<noteq> idD" "idD \<noteq> idA" "idD \<noteq> idB" "idD \<noteq> idC"
  by (simp_all add: idA_def idB_def idC_def idD_def)

lemma ids_valid [simp]:
  "isObjectIdString idA" "isObjectIdString idB" "isObjectIdString idC" "isObjectIdString idD"
  by (simp_all add: isObjectIdString_def idA_def idB_def idC_def idD_def)

lemma env0_cast [simp]: "castObjectId env0 s = (if isObjectIdString s then Some s else None)"
  by (simp add: env0_def)

lemma env0_db [simp]: "db_fails env0 opn = False"
  by (simp add: env0_def)

lemma sample_users [simp]:
  "users state_empty = [mk_user idA, mk_user idB, mk_user idC]"
  "users state_online = [mk_user idA, mk_user idB, mk_user idC]"
  "users state_two = [mk_user idA, mk_user idB, mk_user idC]"
  by (simp_all add: state_empty_def state_online_def state_two_def)

lemma user_id_mk_user [simp]: "user_id (mk_user i) = i"
  by (simp add: mk_user_def)

lemma sample_messages [simp]:
  "messages state_empty = []"
  "messages state_online = []"
  by (simp_all add: state_empty_def state_online_def)

lemma sample_userMap [simp]:
  "userMap state_online idA = Some ''sockA''"
  "userMap state_online idB = Some ''sockB''"
  "userMap state_online idC = None"
  "userMap state_empty u = None"
  by (simp_all add: state_empty_def state_online_def)

lemma new_Message_env0 [simp]:
  "new_Message env0 (Some (mk_user a)) (Some (mk_user b)) ''hi'' None = doc3 a b"
  by (simp add: new_Message_def doc3_def env0_def)

lemma validate_doc3 [simp]: "validate (doc3 a b)"
  by (simp add: validate_def doc3_def)

lemma stored_record_doc3 [simp]: "stored_record (doc3 a b) = msg3 a b"
  by (simp add: stored_record_def doc3_def msg3_def mk_message_def)

text \<open>
  The theorem at the sample data: with a database that rejects the insert, a message
  between the two connected users is not stored and nothing is emitted; with a database
  that answers, the message is stored and then pushed to both.
\<close>

theorem save_failure_no_fanout_witness:
  "sendMessage env_save_fails state_online [] (mk_data (Some idA) (Some idB) (Some ''hi''))
     = (state_online, [], SaveFailed DbError)
   \<and> Message_save env_save_fails (messages state_online)
        (new_Message env_save_fails (Some (mk_user idA)) (Some (mk_user idB)) ''hi'' None) = Inl DbError
   \<and> sendMessage env0 state_online [] (mk_data (Some idA) (Some idB) (Some ''hi''))
     = (state_online\<lparr>messages := [msg3 idA idB]\<rparr>,
        [(''sockB'', ''receiveMessage'', doc3 idA idB), (''sockA'', ''receiveMessage'', doc3 idA idB)],
        Sent (doc3 idA idB))
   \<and> Message_save env0 (messages state_online) (doc3 idA idB)
       = Inr (messages (state_online\<lparr>messages := [msg3 idA idB]\<rparr>))"
proof -
  have sv: "Message_save env_save_fails (messages state_online)
        (new_Message env_save_fails (Some (mk_user idA)) (Some (mk_user idB)) ''hi'' None) = Inl DbError"
    by (simp add: Message_save_def validate_def new_Message_def env_save_fails_def)
  have r1: "sendMessage env_save_fails state_online [] (mk_data (Some idA) (Some idB) (Some ''hi''))
     = (state_online, [], SaveFailed DbError)"
    by (simp add: sendMessage_def Let_def mk_data_def falsy_def User_findById_def
        Message_save_def validate_def new_Message_def presence_run_def env_save_fails_def)
  have sv0: "Message_save env0 (messages state_online) (doc3 idA idB) = Inr [msg3 idA idB]"
    by (simp add: Message_save_def)
  have r2: "sendMessage env0 state_online [] (mk_data (Some idA) (Some idB) (Some ''hi''))
     = (state_online\<lparr>messages := [msg3 idA idB]\<rparr>,
        [(''sockB'', ''receiveMessage'', doc3 idA idB), (''sockA'', ''receiveMessage'', doc3 idA idB)],
        Sent (doc3 idA idB))"
    by (simp add: sendMessage_def Let_def mk_data_def falsy_def User_findById_def
        Message_save_def fanout_def presence_run_def)
  show ?thesis
    using save_failure_no_fanout [OF r1] save_failure_no_fanout [OF r2] r1 r2 sv sv0
    by simp
qed

text \<open>
  Claim C9. A message is stored only with a sender and a recipient that resolve to
  existing users. When \<^verbatim>\<open>findById\<close> gives \<^verbatim>\<open>null\<close> for the sender or for the
  recipient, nothing is stored, nothing is emitted and the send does not succeed (the
  document holds \<^verbatim>\<open>null\<close> in a required path and \<^verbatim>\<open>save\<close> throws). In every
  run, either the stored messages are unchanged, or exactly one message was appended,
  the record of the saved document, whose sender and recipient are the ids of users of
  the collection, the users the event's sender and recipient fields were cast to.
\<close>

theorem unresolved_identity_not_stored:
  assumes run: "sendMessage e st evs d = (st', ems, out)"
  shows "(User_findById e FindSender (users st) (the (data_sender d)) = Inr None
          \<or> User_findById e FindRecipient (users st) (the (data_recipient d)) = Inr None
          \<longrightarrow> messages st' = messages st \<and> ems = [] \<and> (\<forall>m. out \<noteq> Sent m))
       \<and> (messages st' = messages st
          \<or> (\<exists>doc m su ru. out = Sent doc \<and> m = stored_record doc
                \<and> messages st' = messages st @ [m]
                \<and> su \<in> set (users st) \<and> sender m = Some (user_id su)
                \<and> castObjectId e (the (data_sender d)) = Some (user_id su)
                \<and> ru \<in> set (users st) \<and> recipient m = Some (user_id ru)
                \<and> castObjectId e (the (data_recipient d)) = Some (user_id ru)))"
proof -
  note cs = sendMessage_cases [OF run]
  have sent: "\<exists>su ru. messages st' = messages st @ [stored_record doc]
                \<and> su \<in> set (users st) \<and> sender (stored_record doc) = Some (user_id su)
                \<and> castObjectId e (the (data_sender d)) = Some (user_id su)
                \<and> ru \<in> set (users st) \<and> recipient (stored_record doc) = Some (user_id ru)
                \<and> castObjectId e (the (data_recipient d)) = Some (user_id ru)
                \<and> User_findById e FindSender (users st) (the (data_sender d)) = Inr (Some su)
                \<and> User_findById e FindRecipient (users st) (the (data_recipient d)) = Inr (Some ru)"
    if "out = Sent doc" for doc
  proof -
    from cs that obtain so ro where
        fs: "User_findById e FindSender (users st) (the (data_sender d)) = Inr so"
        and fr: "User_findById e FindRecipient (users st) (the (data_recipient d)) = Inr ro"
        and m: "doc = new_Message e so ro (the (data_content d)) (data_messageType d)"
        and sv: "Message_save e (messages st) doc = Inr (messages st')"
      by auto
    from Message_save_Inr [OF sv] have v: "validate doc"
      and ms: "messages st' = messages st @ [stored_record doc]"
      by simp_all
    from v m obtain su ru where so: "so = Some su" and ro: "ro = Some ru"
      by (auto simp: validate_def new_Message_def)
    from User_findById_Some [OF fs [unfolded so]] User_findById_Some [OF fr [unfolded ro]]
    show ?thesis
      using ms m so ro fs fr by (auto simp: new_Message_def stored_record_def)
  qed
  have first: "messages st' = messages st \<and> ems = [] \<and> (\<forall>m. out \<noteq> Sent m)"
    if "User_findById e FindSender (users st) (the (data_sender d)) = Inr None
          \<or> User_findById e FindRecipient (users st) (the (data_recipient d)) = Inr None"
  proof -
    have ns: "out \<noteq> Sent m" for m
      using sent [of m] that by auto
    with cs show ?thesis by auto
  qed
  have second: "messages st' = messages st
          \<or> (\<exists>doc m su ru. out = Sent doc \<and> m = stored_record doc
                \<and> messages st' = messages st @ [m]
                \<and> su \<in> set (users st) \<and> sender m = Some (user_id su)
                \<and> castObjectId e (the (data_sender d)) = Some (user_id su)
                \<and> ru \<in> set (users st) \<and> recipient m = Some (user_id ru)
                \<and> castObjectId e (the (data_recipient d)) = Some (user_id ru))"
  proof (cases "\<exists>doc. out = Sent doc")
    case True
    then obtain doc where "out = Sent doc" by blast
    with sent [of doc] show ?thesis by blast
  next
    case False
    with cs show ?thesis by auto
  qed
  from first second show ?thesis by blast
qed

text \<open>
  The theorem at the sample data: a recipient that is no user, a sender that is no
  user and a recipient that is no ObjectId, none of them stored; and a message between
  two users, stored.
\<close>

theorem unresolved_identity_not_stored_witness:
  "User_findById env0 FindRecipient (users state_online) idD = Inr None
   \<and> sendMessage env0 state_online [] (mk_data (Some idA) (Some idD) (Some ''hi''))
       = (state_online, [], SaveFailed ValidationError)
   \<and> User_findById env0 FindSender (users state_online) idD = Inr None
   \<and> sendMessage env0 state_online [] (mk_data (Some idD) (Some idA) (Some ''hi''))
       = (state_online, [], SaveFailed ValidationError)
   \<and> sendMessage env0 state_online [] (mk_data (Some idA) (Some ''nobody'') (Some ''hi''))
       = (state_online, [], Rejected CastError)
   \<and> messages (fst (sendMessage env0 state_online [] (mk_data (Some idA) (Some idB) (Some ''hi''))))
       = messages state_online @ [msg3 idA idB]"
proof -
  have f1: "User_findById env0 FindRecipient (users state_online) idD = Inr None"
    by (simp add: User_findById_def)
  have f2: "User_findById env0 FindSender (users state_online) idD = Inr None"
    by (simp add: User_findById_def)
  have r1: "sendMessage env0 state_online [] (mk_data (Some idA) (Some idD) (Some ''hi''))
       = (state_online, [], SaveFailed ValidationError)"
    by (simp add: sendMessage_def Let_def mk_data_def falsy_def User_findById_def
        Message_save_def validate_def new_Message_def presence_run_def)
  have r2: "sendMessage env0 state_online [] (mk_data (Some idD) (Some idA) (Some ''hi''))
       = (state_online, [], SaveFailed ValidationError)"
    by (simp add: sendMessage_def Let_def mk_data_def falsy_def User_findById_def
        Message_save_def validate_def new_Message_def presence_run_def)
  have r3: "sendMessage env0 state_online [] (mk_data (Some idA) (Some ''nobody'') (Some ''hi''))
       = (state_online, [], Rejected CastError)"
    by (simp add: sendMessage_def Let_def mk_data_def falsy_def User_findById_def
        isObjectIdString_def presence_run_def)
  have r4: "sendMessage env0 state_online [] (mk_data (Some idA) (Some idB) (Some ''hi''))
     = (state_online\<lparr>messages := [msg3 idA idB]\<rparr>,
        [(''sockB'', ''receiveMessage'', doc3 idA idB), (''sockA'', ''receiveMessage'', doc3 idA idB)],
        Sent (doc3 idA idB))"
    by (simp add: sendMessage_def Let_def mk_data_def falsy_def User_findById_def
        Message_save_def fanout_def presence_run_def)
  show ?thesis
    using unresolved_identity_not_stored [OF r1] unresolved_identity_not_stored [OF r2]
      unresolved_identity_not_stored [OF r4] f1 f2 r1 r2 r3 r4
    by simp
qed

section \<open>Fanout and history\<close>

lemma fanout_unregistered_recipient:
  "um b = None \<Longrightarrow>
     fanout um a b m = (if falsy (um a) then [] else [(the (um a), ''receiveMessage'', m)])"
  by (simp add: fanout_def falsy_def)

lemma fanout_registered_recipient:
  assumes "um b = Some h" "h \<noteq> []" "um a \<noteq> Some h"
  shows "filter (\<lambda>x. fst x = h) (fanout um a b m) = [(h, ''receiveMessage'', m)]"
  using assms by (cases "um a") (auto simp: fanout_def falsy_def)

lemma fanout_same_connection:
  assumes "um b = Some h" "h \<noteq> []" "um a = Some h"
  shows "fanout um a b m = [(h, ''receiveMessage'', m), (h, ''receiveMessage'', m)]"
  using assms by (simp add: fanout_def falsy_def)

lemma sort_key_filter_mem:
  "m \<in> set (sort_key f (filter P xs)) \<longleftrightarrow> m \<in> set xs \<and> P m"
  by simp

lemma getMessages_ok:
  assumes "castObjectId e u = Some a" "castObjectId e c = Some b" "c \<noteq> []"
    "\<not> db_fails e FindMessages"
  shows "getMessages e st u (Some c)
           = Response 200 (JMessages (sort_key timestamp (filter (pair_filter a b) (messages st))))"
  using assms by (simp add: getMessages_def Message_find_pair_def cast_pair_def falsy_def)

lemma pair_filter_commute: "pair_filter a b m = pair_filter b a m"
  by (auto simp: pair_filter_def)

text \<open>What a run that saved a document leaves behind.\<close>

lemma sendMessage_Sent:
  assumes run: "sendMessage e st evs d = (st', ems, Sent doc)"
  shows "messages st' = messages st @ [stored_record doc]
       \<and> userMap st' = userMap (presence_run st evs)
       \<and> ems = fanout (userMap st') (the (data_sender d)) (the (data_recipient d)) doc
       \<and> sender (stored_record doc) = castObjectId e (the (data_sender d))
       \<and> sender (stored_record doc) \<noteq> None
       \<and> recipient (stored_record doc) = castObjectId e (the (data_recipient d))
       \<and> recipient (stored_record doc) \<noteq> None"
proof -
  from sendMessage_cases [OF run] obtain so ro where
      fs: "User_findById e FindSender (users st) (the (data_sender d)) = Inr so"
      and fr: "User_findById e FindRecipient (users st) (the (data_recipient d)) = Inr ro"
      and m: "doc = new_Message e so ro (the (data_content d)) (data_messageType d)"
      and sv: "Message_save e (messages st) doc = Inr (messages st')"
      and st': "st' = (presence_run st evs)\<lparr>messages := messages st'\<rparr>"
      and ems: "ems = fanout (userMap (presence_run st evs)) (the (data_sender d))
                      (the (data_recipient d)) doc"
    by auto
  have "userMap st' = userMap ((presence_run st evs)\<lparr>messages := messages st'\<rparr>)"
    using st' by simp
  then have um: "userMap st' = userMap (presence_run st evs)" by simp
  from Message_save_Inr [OF sv] have v: "validate doc"
    and ms: "messages st' = messages st @ [stored_record doc]"
    by simp_all
  from v m obtain su ru where so: "so = Some su" and ro: "ro = Some ru"
    by (auto simp: validate_def new_Message_def)
  from User_findById_Some [OF fs [unfolded so]] User_findById_Some [OF fr [unfolded ro]]
  have "sender (stored_record doc) = castObjectId e (the (data_sender d))"
      "recipient (stored_record doc) = castObjectId e (the (data_recipient d))"
    using m so ro by (simp_all add: new_Message_def stored_record_def)
  moreover have "sender (stored_record doc) \<noteq> None" "recipient (stored_record doc) \<noteq> None"
    using v by (simp_all add: validate_def stored_record_def)
  ultimately show ?thesis using ms um ems by simp
qed

text \<open>
  Claim C4, as amended. For every saved message, with the presence directory as it is
  at fanout time (the state \<open>st'\<close> the handler leaves): the persisted record is stored,
  its id is the id of the saved document \<open>doc\<close>, its sender and recipient are the
  identities the event's fields were cast to, and the events emitted are exactly the
  fanout of \<open>doc\<close> under the event's sender and recipient strings. Let \<open>A\<close> and \<open>B\<close> be
  the persisted sender and recipient, and let the event spell both as they are
  persisted. If \<open>B\<close> is registered with a handle \<open>h\<close> and \<open>A\<close> is not registered with
  that handle, exactly one event goes to \<open>h\<close>, a \<^verbatim>\<open>receiveMessage\<close> carrying \<open>doc\<close>;
  if \<open>A\<close> is registered with that same handle (as it is when \<open>A\<close> is \<open>B\<close>), exactly two
  such events are emitted, both to \<open>h\<close>; if \<open>B\<close> is not registered, nothing is emitted
  but the sender's copy (when \<open>A\<close> is registered). In every case a later history fetch
  between the two identities, asked by either side, that reaches the database returns
  the persisted record.
\<close>

theorem fanout_delivery:
  assumes run: "sendMessage e st evs d = (st', ems, Sent doc)"
  shows "messages st' = messages st @ [stored_record doc]
       \<and> message_id (stored_record doc) = doc_id doc
       \<and> sender (stored_record doc) = castObjectId e (the (data_sender d))
       \<and> sender (stored_record doc) \<noteq> None
       \<and> recipient (stored_record doc) = castObjectId e (the (data_recipient d))
       \<and> recipient (stored_record doc) \<noteq> None
       \<and> userMap st' = userMap (presence_run st evs)
       \<and> ems = fanout (userMap st') (the (data_sender d)) (the (data_recipient d)) doc
       \<and> (\<forall>A B. sender (stored_record doc) = Some A \<and> recipient (stored_record doc) = Some B
               \<and> data_sender d = Some A \<and> data_recipient d = Some B
            \<longrightarrow> (\<forall>h. lookup st' B = Some h \<and> h \<noteq> [] \<and> lookup st' A \<noteq> Some h
                    \<longrightarrow> filter (\<lambda>x. fst x = h) ems = [(h, ''receiveMessage'', doc)])
                \<and> (\<forall>h. lookup st' B = Some h \<and> h \<noteq> [] \<and> lookup st' A = Some h
                    \<longrightarrow> ems = [(h, ''receiveMessage'', doc), (h, ''receiveMessage'', doc)])
                \<and> (lookup st' B = None
                    \<longrightarrow> ems = (if falsy (lookup st' A) then []
                               else [(the (lookup st' A), ''receiveMessage'', doc)])))
       \<and> (\<forall>e' u c.
             ((castObjectId e' u = sender (stored_record doc)
                 \<and> castObjectId e' c = recipient (stored_record doc))
              \<or> (castObjectId e' u = recipient (stored_record doc)
                 \<and> castObjectId e' c = sender (stored_record doc)))
             \<and> c \<noteq> [] \<and> \<not> db_fails e' FindMessages
            \<longrightarrow> (\<exists>ms. getMessages e' st' u (Some c) = Response 200 (JMessages ms)
                      \<and> stored_record doc \<in> set ms))"
proof -
  note s = sendMessage_Sent [OF run]
  let ?m = "stored_record doc"
  from s have ems: "ems = fanout (userMap st') (the (data_sender d)) (the (data_recipient d)) doc"
    by simp
  have deliver:
    "(\<forall>h. lookup st' B = Some h \<and> h \<noteq> [] \<and> lookup st' A \<noteq> Some h
         \<longrightarrow> filter (\<lambda>x. fst x = h) ems = [(h, ''receiveMessage'', doc)])
     \<and> (\<forall>h. lookup st' B = Some h \<and> h \<noteq> [] \<and> lookup st' A = Some h
         \<longrightarrow> ems = [(h, ''receiveMessage'', doc), (h, ''receiveMessage'', doc)])
     \<and> (lookup st' B = None
         \<longrightarrow> ems = (if falsy (lookup st' A) then []
                    else [(the (lookup st' A), ''receiveMessage'', doc)]))"
    if sp: "data_sender d = Some A \<and> data_recipient d = Some B" for A B
  proof -
    from sp ems have e: "ems = fanout (userMap st') A B doc" by simp
    have one: "filter (\<lambda>x. fst x = h) ems = [(h, ''receiveMessage'', doc)]"
      if "lookup st' B = Some h \<and> h \<noteq> [] \<and> lookup st' A \<noteq> Some h" for h
      using that fanout_registered_recipient [of "userMap st'" B h A doc] e
      by (simp add: lookup_def)
    have two: "ems = [(h, ''receiveMessage'', doc), (h, ''receiveMessage'', doc)]"
      if "lookup st' B = Some h \<and> h \<noteq> [] \<and> lookup st' A = Some h" for h
      using that fanout_same_connection [of "userMap st'" B h A doc] e
      by (simp add: lookup_def)
    have none: "ems = (if falsy (lookup st' A) then []
                    else [(the (lookup st' A), ''receiveMessage'', doc)])"
      if "lookup st' B = None"
      using that fanout_unregistered_recipient [of "userMap st'" B A doc] e
      by (simp add: lookup_def)
    from one two none show ?thesis by blast
  qed
  from s have mem: "?m \<in> set (messages st')" by simp
  from s have "sender ?m \<noteq> None" and "recipient ?m \<noteq> None" by blast+
  then obtain a b where a: "sender ?m = Some a" and b: "recipient ?m = Some b" by auto
  have hist: "\<exists>ms. getMessages e' st' u (Some c) = Response 200 (JMessages ms) \<and> ?m \<in> set ms"
    if h: "((castObjectId e' u = sender ?m \<and> castObjectId e' c = recipient ?m)
              \<or> (castObjectId e' u = recipient ?m \<and> castObjectId e' c = sender ?m))
             \<and> c \<noteq> [] \<and> \<not> db_fails e' FindMessages" for e' u c
  proof -
    from h have "(castObjectId e' u = Some a \<and> castObjectId e' c = Some b)
              \<or> (castObjectId e' u = Some b \<and> castObjectId e' c = Some a)"
      using a b by simp
    then show ?thesis
    proof
      assume "castObjectId e' u = Some a \<and> castObjectId e' c = Some b"
      with h have "getMessages e' st' u (Some c)
           = Response 200 (JMessages (sort_key timestamp (filter (pair_filter a b) (messages st'))))"
        by (intro getMessages_ok) simp_all
      moreover have "?m \<in> set (sort_key timestamp (filter (pair_filter a b) (messages st')))"
        using mem a b by (simp add: pair_filter_def)
      ultimately show ?thesis by blast
    next
      assume "castObjectId e' u = Some b \<and> castObjectId e' c = Some a"
      with h have "getMessages e' st' u (Some c)
           = Response 200 (JMessages (sort_key timestamp (filter (pair_filter b a) (messages st'))))"
        by (intro getMessages_ok) simp_all
      moreover have "?m \<in> set (sort_key timestamp (filter (pair_filter b a) (messages st')))"
        using mem a b by (simp add: pair_filter_def)
      ultimately show ?thesis by blast
    qed
  qed
  have id: "message_id ?m = doc_id doc" by (simp add: stored_record_def)
  from s deliver hist id show ?thesis by blast
qed

text \<open>
  Claim C4 as stated fails when sender and recipient are the same identity: the two
  pushes are independent, so the one connection of \<open>A\<close> receives the saved message
  twice.
\<close>

theorem fanout_self_message_counterexample:
  "sendMessage env0 state_online [] (mk_data (Some idA) (Some idA) (Some ''hi''))
     = (state_online\<lparr>messages := [msg3 idA idA]\<rparr>,
        [(''sockA'', ''receiveMessage'', doc3 idA idA), (''sockA'', ''receiveMessage'', doc3 idA idA)],
        Sent (doc3 idA idA))
   \<and> lookup (state_online\<lparr>messages := [msg3 idA idA]\<rparr>) idA = Some ''sockA''
   \<and> message_id (msg3 idA idA) = ''000000000000000000000003''
   \<and> doc_id (doc3 idA idA) = ''000000000000000000000003''
   \<and> count_list (map fst (fst (snd
        (sendMessage env0 state_online [] (mk_data (Some idA) (Some idA) (Some ''hi'')))))) ''sockA'' = 2"
proof -
  have r: "sendMessage env0 state_online [] (mk_data (Some idA) (Some idA) (Some ''hi''))
     = (state_online\<lparr>messages := [msg3 idA idA]\<rparr>,
        [(''sockA'', ''receiveMessage'', doc3 idA idA), (''sockA'', ''receiveMessage'', doc3 idA idA)],
        Sent (doc3 idA idA))"
    by (simp add: sendMessage_def Let_def mk_data_def falsy_def User_findById_def
        Message_save_def fanout_def presence_run_def)
  show ?thesis
    by (simp add: r lookup_def msg3_def mk_message_def doc3_def)
qed

text \<open>
  Claim C4 as stated also fails when the event spells the recipient otherwise than
  the id is persisted. With a cast that reads hexadecimal digits in either case, an
  event whose recipient is the second user's id in upper case is stored as a message to
  the second user, who is connected on \<open>sockB\<close>; \<^verbatim>\<open>userMap[recipient]\<close> is read under
  the event's string, finds nothing, and only the sender's copy is emitted.
\<close>

lemma fanout_respelled_recipient:
  "sendMessage env_fold state_online [] (mk_data (Some idA) (Some idB_upper) (Some ''hi''))
     = (state_online\<lparr>messages := [msg3 idA idB]\<rparr>,
        [(''sockA'', ''receiveMessage'', doc3 idA idB)],
        Sent (doc3 idA idB))
   \<and> recipient (msg3 idA idB) = Some idB
   \<and> lookup (state_online\<lparr>messages := [msg3 idA idB]\<rparr>) idB = Some ''sockB''"
proof -
  have ca: "castObjectId env_fold idA = Some idA"
    by (simp add: env_fold_def lower_hex_def idA_def isObjectIdString_def)
  have cb: "castObjectId env_fold idB_upper = Some idB"
    by (simp add: env_fold_def lower_hex_def idB_upper_def idB_def isObjectIdString_def)
  have db: "\<And>opn. db_fails env_fold opn = False"
    by (simp add: env_fold_def)
  have nm: "new_Message env_fold (Some (mk_user idA)) (Some (mk_user idB)) ''hi'' None = doc3 idA idB"
    by (simp add: new_Message_def doc3_def env_fold_def env0_def)
  have um: "userMap state_online idB_upper = None"
    by (simp add: state_online_def state_empty_def idA_def idB_def idB_upper_def)
  have ne: "idB_upper \<noteq> []" by (simp add: idB_upper_def)
  have r: "sendMessage env_fold state_online [] (mk_data (Some idA) (Some idB_upper) (Some ''hi''))
     = (state_online\<lparr>messages := [msg3 idA idB]\<rparr>,
        [(''sockA'', ''receiveMessage'', doc3 idA idB)],
        Sent (doc3 idA idB))"
    by (simp add: sendMessage_def Let_def mk_data_def falsy_def User_findById_def ca cb db nm um ne
        Message_save_def fanout_def presence_run_def)
  show ?thesis
    by (simp add: r lookup_def msg3_def mk_message_def)
qed

text \<open>
  The theorem at the sample data: a message between the two connected users reaches
  \<open>sockB\<close> once; a message of the first user to itself reaches \<open>sockA\<close> twice; when
  the recipient disconnects while the handler is suspended, only the sender's copy is
  emitted, and the history fetch asked by the recipient returns the message.
\<close>

theorem fanout_delivery_witness:
  "sendMessage env0 state_online [] (mk_data (Some idA) (Some idB) (Some ''hi''))
     = (state_online\<lparr>messages := [msg3 idA idB]\<rparr>,
        [(''sockB'', ''receiveMessage'', doc3 idA idB), (''sockA'', ''receiveMessage'', doc3 idA idB)],
        Sent (doc3 idA idB))
   \<and> filter (\<lambda>x. fst x = ''sockB'')
        [(''sockB'', ''receiveMessage'', doc3 idA idB), (''sockA'', ''receiveMessage'', doc3 idA idB)]
       = [(''sockB'', ''receiveMessage'', doc3 idA idB)]
   \<and> fst (snd (sendMessage env0 state_online [] (mk_data (Some idA) (Some idA) (Some ''hi''))))
       = [(''sockA'', ''receiveMessage'', doc3 idA idA), (''sockA'', ''receiveMessage'', doc3 idA idA)]
   \<and> sendMessage env0 state_online [Disconnect \<lparr>socket_id = ''sockB'', socket_userId = idB\<rparr>]
        (mk_data (Some idA) (Some idB) (Some ''hi''))
     = (on_disconnect state_online \<lparr>socket_id = ''sockB'', socket_userId = idB\<rparr>
          \<lparr>messages := [msg3 idA idB]\<rparr>,
        [(''sockA'', ''receiveMessage'', doc3 idA idB)],
        Sent (doc3 idA idB))
   \<and> lookup (on_disconnect state_online \<lparr>socket_id = ''sockB'', socket_userId = idB\<rparr>
          \<lparr>messages := [msg3 idA idB]\<rparr>) idB = None
   \<and> (\<exists>ms. getMessages env0 (on_disconnect state_online \<lparr>socket_id = ''sockB'', socket_userId = idB\<rparr>
          \<lparr>messages := [msg3 idA idB]\<rparr>) idB (Some idA) = Response 200 (JMessages ms)
          \<and> msg3 idA idB \<in> set ms)"
proof -
  let ?d = "mk_data (Some idA) (Some idB) (Some ''hi'')"
  let ?ds = "mk_data (Some idA) (Some idA) (Some ''hi'')"
  let ?st1 = "state_online\<lparr>messages := [msg3 idA idB]\<rparr>"
  let ?sts = "state_online\<lparr>messages := [msg3 idA idA]\<rparr>"
  let ?st2 = "on_disconnect state_online \<lparr>socket_id = ''sockB'', socket_userId = idB\<rparr>
          \<lparr>messages := [msg3 idA idB]\<rparr>"
  have r1: "sendMessage env0 state_online [] ?d
     = (?st1,
        [(''sockB'', ''receiveMessage'', doc3 idA idB), (''sockA'', ''receiveMessage'', doc3 idA idB)],
        Sent (doc3 idA idB))"
    by (simp add: sendMessage_def Let_def mk_data_def falsy_def User_findById_def
        Message_save_def fanout_def presence_run_def)
  have r2: "sendMessage env0 state_online [Disconnect \<lparr>socket_id = ''sockB'', socket_userId = idB\<rparr>] ?d
     = (?st2, [(''sockA'', ''receiveMessage'', doc3 idA idB)], Sent (doc3 idA idB))"
    by (simp add: sendMessage_def Let_def mk_data_def falsy_def User_findById_def
        Message_save_def fanout_def presence_run_def userMap_on_disconnect)
  obtain ems where rs: "sendMessage env0 state_online [] ?ds = (?sts, ems, Sent (doc3 idA idA))"
    by (simp add: sendMessage_def Let_def mk_data_def falsy_def User_findById_def
        Message_save_def fanout_def presence_run_def)
  have sp1: "sender (stored_record (doc3 idA idB)) = Some idA"
      "recipient (stored_record (doc3 idA idB)) = Some idB"
      "data_sender ?d = Some idA" "data_recipient ?d = Some idB"
    by (simp_all add: msg3_def mk_message_def mk_data_def)
  have l1: "lookup ?st1 idB = Some ''sockB''"
    and l2: "''sockB'' \<noteq> []"
    and l3: "lookup ?st1 idA \<noteq> Some ''sockB''"
    by (simp_all add: lookup_def)
  from fanout_delivery [OF r1] sp1 l1 l2 l3
  have a1: "filter (\<lambda>x. fst x = ''sockB'')
        [(''sockB'', ''receiveMessage'', doc3 idA idB), (''sockA'', ''receiveMessage'', doc3 idA idB)]
       = [(''sockB'', ''receiveMessage'', doc3 idA idB)]"
    by blast
  have sps: "sender (stored_record (doc3 idA idA)) = Some idA"
      "recipient (stored_record (doc3 idA idA)) = Some idA"
      "data_sender ?ds = Some idA" "data_recipient ?ds = Some idA"
    by (simp_all add: msg3_def mk_message_def mk_data_def)
  have ls: "lookup ?sts idA = Some ''sockA''" and ls2: "''sockA'' \<noteq> []"
    by (simp_all add: lookup_def)
  from fanout_delivery [OF rs] sps ls ls2
  have "ems = [(''sockA'', ''receiveMessage'', doc3 idA idA), (''sockA'', ''receiveMessage'', doc3 idA idA)]"
    by blast
  with rs have a3: "fst (snd (sendMessage env0 state_online [] ?ds))
       = [(''sockA'', ''receiveMessage'', doc3 idA idA), (''sockA'', ''receiveMessage'', doc3 idA idA)]"
    by simp
  have n1: "lookup ?st2 idB = None"
    by (simp add: lookup_def userMap_on_disconnect)
  have c1: "castObjectId env0 idB = recipient (stored_record (doc3 idA idB))"
    and c2: "castObjectId env0 idA = sender (stored_record (doc3 idA idB))"
    and c3: "idA \<noteq> []" and c4: "\<not> db_fails env0 FindMessages"
    by (simp_all add: msg3_def mk_message_def)
  from fanout_delivery [OF r2] c1 c2 c3 c4
  have "\<exists>ms. getMessages env0 ?st2 idB (Some idA) = Response 200 (JMessages ms)
          \<and> stored_record (doc3 idA idB) \<in> set ms"
    by blast
  then have a2: "\<exists>ms. getMessages env0 ?st2 idB (Some idA) = Response 200 (JMessages ms)
          \<and> msg3 idA idB \<in> set ms"
    by simp
  from r1 r2 a1 a3 n1 a2 show ?thesis by simp
qed

section \<open>History fetch and conversation deletion\<close>

text \<open>
  Claim C7. For a user \<open>U\<close> and a counterpart id \<open>C\<close> (both ObjectIds, the
  counterpart id present in the request, the database answering), the history fetch
  answers 200 with exactly the stored messages whose sender and recipient are \<open>U\<close>
  and \<open>C\<close> in either direction, each as often as it is stored, in ascending order of
  the timestamp field.
\<close>

theorem getMessages_history:
  assumes "castObjectId e U = Some u" and "castObjectId e C = Some c"
    and "C \<noteq> []" and "\<not> db_fails e FindMessages"
  shows "\<exists>ms. getMessages e st U (Some C) = Response 200 (JMessages ms)
          \<and> mset ms = {# m \<in># mset (messages st).
                (sender m = Some u \<and> recipient m = Some c)
                \<or> (sender m = Some c \<and> recipient m = Some u) #}
          \<and> sorted (map timestamp ms)"
proof -
  let ?ms = "sort_key timestamp (filter (pair_filter u c) (messages st))"
  have "getMessages e st U (Some C) = Response 200 (JMessages ?ms)"
    using assms by (rule getMessages_ok)
  moreover have "mset ?ms = {# m \<in># mset (messages st).
                (sender m = Some u \<and> recipient m = Some c)
                \<or> (sender m = Some c \<and> recipient m = Some u) #}"
    by (simp add: pair_filter_def)
  moreover have "sorted (map timestamp ?ms)"
    by (rule sorted_sort_key)
  ultimately show ?thesis by blast
qed

text \<open>
  The theorem at the sample data: of the four stored messages, the three between the
  first two users, by timestamp.
\<close>

theorem getMessages_history_witness:
  "castObjectId env0 idA = Some idA \<and> castObjectId env0 idB = Some idB \<and> idB \<noteq> []
   \<and> \<not> db_fails env0 FindMessages
   \<and> getMessages env0 state_history idA (Some idB)
      = Response 200 (JMessages [mk_message ''000000000000000000000002'' idB idA 2,
                                 mk_message ''000000000000000000000004'' idB idA 4,
                                 mk_message ''000000000000000000000005'' idA idB 5])"
proof -
  have c: "castObjectId env0 idA = Some idA" "castObjectId env0 idB = Some idB" "idB \<noteq> []"
      "\<not> db_fails env0 FindMessages"
    by simp_all
  have g: "getMessages env0 state_history idA (Some idB)
      = Response 200 (JMessages [mk_message ''000000000000000000000002'' idB idA 2,
                                 mk_message ''000000000000000000000004'' idB idA 4,
                                 mk_message ''000000000000000000000005'' idA idB 5])"
    by (simp add: getMessages_def Message_find_pair_def cast_pair_def falsy_def pair_filter_def
        state_history_def mk_message_def)
  from getMessages_history [OF c, of state_history] g c show ?thesis by simp
qed

lemma deleteDm_ok:
  assumes "castObjectId e U = Some u" and "castObjectId e C = Some c"
    and "C \<noteq> []" and "\<not> db_fails e DeleteMessages"
  shows "deleteDm e st U (Some C)
          = (st\<lparr>messages := filter (\<lambda>m. \<not> pair_filter u c m) (messages st)\<rparr>,
             Response 200 (JMessage ''DM deleted successfully''))"
  using assms by (simp add: deleteDm_def Message_deleteMany_pair_def cast_pair_def falsy_def)

text \<open>
  Claim C8. Deleting the conversation of \<open>U\<close> and \<open>C\<close> (both ObjectIds, the database
  answering) reports success and leaves exactly the messages that are not between the
  two, in either direction; the directory and the users are untouched. A history fetch
  between the two, asked by either side, then answers the empty sequence, and deleting
  again reports success and changes nothing.
\<close>

theorem deleteDm_conversation:
  assumes cu: "castObjectId e U = Some u" and cc: "castObjectId e C = Some c"
    and ne: "C \<noteq> []" "U \<noteq> []"
    and db: "\<not> db_fails e DeleteMessages" "\<not> db_fails e FindMessages"
  shows "\<exists>st'. deleteDm e st U (Some C) = (st', Response 200 (JMessage ''DM deleted successfully''))
          \<and> messages st' = filter (\<lambda>m. \<not> ((sender m = Some u \<and> recipient m = Some c)
                                          \<or> (sender m = Some c \<and> recipient m = Some u))) (messages st)
          \<and> userMap st' = userMap st \<and> users st' = users st
          \<and> getMessages e st' U (Some C) = Response 200 (JMessages [])
          \<and> getMessages e st' C (Some U) = Response 200 (JMessages [])
          \<and> deleteDm e st' U (Some C) = (st', Response 200 (JMessage ''DM deleted successfully''))"
proof -
  let ?st' = "st\<lparr>messages := filter (\<lambda>m. \<not> pair_filter u c m) (messages st)\<rparr>"
  have d: "deleteDm e st U (Some C) = (?st', Response 200 (JMessage ''DM deleted successfully''))"
    using cu cc ne(1) db(1) by (rule deleteDm_ok)
  have none: "filter (pair_filter u c) (messages ?st') = []"
    by (simp add: filter_empty_conv)
  have none': "filter (pair_filter c u) (messages ?st') = []"
    using none by (simp add: pair_filter_commute [of c u])
  have g1: "getMessages e ?st' U (Some C) = Response 200 (JMessages [])"
    using getMessages_ok [OF cu cc ne(1) db(2), of ?st'] none by simp
  have g2: "getMessages e ?st' C (Some U) = Response 200 (JMessages [])"
    using getMessages_ok [OF cc cu ne(2) db(2), of ?st'] none' by simp
  have same: "?st'\<lparr>messages := filter (\<lambda>m. \<not> pair_filter u c m) (messages ?st')\<rparr> = ?st'"
    by simp
  have d2: "deleteDm e ?st' U (Some C) = (?st', Response 200 (JMessage ''DM deleted successfully''))"
    using deleteDm_ok [OF cu cc ne(1) db(1), of ?st'] same by simp
  have ms: "messages ?st' = filter (\<lambda>m. \<not> ((sender m = Some u \<and> recipient m = Some c)
                                          \<or> (sender m = Some c \<and> recipient m = Some u))) (messages st)"
    by (simp add: pair_filter_def)
  from d g1 g2 d2 ms show ?thesis by simp
qed

text \<open>
  The theorem at the sample data: the three messages between the first two users are
  deleted, the message to the third user stays, and the second deletion changes nothing.
\<close>

theorem deleteDm_conversation_witness:
  "castObjectId env0 idA = Some idA \<and> castObjectId env0 idB = Some idB
   \<and> idA \<noteq> [] \<and> idB \<noteq> [] \<and> \<not> db_fails env0 DeleteMessages \<and> \<not> db_fails env0 FindMessages
   \<and> deleteDm env0 state_history idA (Some idB)
       = (state_history\<lparr>messages := [mk_message ''000000000000000000000003'' idA idC 3]\<rparr>,
          Response 200 (JMessage ''DM deleted successfully''))
   \<and> getMessages env0 (state_history\<lparr>messages := [mk_message ''000000000000000000000003'' idA idC 3]\<rparr>)
        idA (Some idB) = Response 200 (JMessages [])
   \<and> deleteDm env0 (state_history\<lparr>messages := [mk_message ''000000000000000000000003'' idA idC 3]\<rparr>)
        idA (Some idB)
       = (state_history\<lparr>messages := [mk_message ''000000000000000000000003'' idA idC 3]\<rparr>,
          Response 200 (JMessage ''DM deleted successfully''))"
proof -
  have c: "castObjectId env0 idA = Some idA" "castObjectId env0 idB = Some idB"
      "idB \<noteq> []" "idA \<noteq> []" "\<not> db_fails env0 DeleteMessages" "\<not> db_fails env0 FindMessages"
    by simp_all
  have d: "deleteDm env0 state_history idA (Some idB)
       = (state_history\<lparr>messages := [mk_message ''000000000000000000000003'' idA idC 3]\<rparr>,
          Response 200 (JMessage ''DM deleted successfully''))"
    by (simp add: deleteDm_def Message_deleteMany_pair_def cast_pair_def falsy_def pair_filter_def
        state_history_def mk_message_def)
  from deleteDm_conversation [OF c, of state_history] d c show ?thesis by auto
qed

section \<open>The contact list\<close>

lemma tostring_call_throws: "tostring_call currentUserId = Inl TypeError"
  by (simp add: tostring_call_def method_call_def String_prototype_def)

lemma collect_step_throws: "collect_step currentUserId msg userIds = Inl TypeError"
  by (simp add: collect_step_def tostring_call_throws)

lemma forEach_collect_throws:
  "msgs \<noteq> [] \<Longrightarrow> forEach_collect currentUserId msgs userIds = Inl TypeError"
  by (cases msgs) (simp_all add: collect_step_throws)

text \<open>
  Whatever the store holds and whatever the libraries do, the handler never answers
  with a list of contacts: it answers 400, the empty array, or 500.
\<close>

lemma getContacts_answers:
  "getContacts e st req_userId = Response 400 (JMessage ''No user ID found in token'')
   \<or> getContacts e st req_userId = Response 200 JEmptyArray
   \<or> getContacts e st req_userId = Response 500 (JMessage ''Server or database issue'')"
proof (cases "falsy req_userId")
  case True
  then show ?thesis by (simp add: getContacts_def)
next
  case False
  show ?thesis
  proof (cases "Message_find_contacts e (messages st) (the req_userId)")
    case (Inl err)
    with False show ?thesis by (simp add: getContacts_def)
  next
    case (Inr msgs)
    show ?thesis
    proof (cases "msgs = []")
      case True
      with False Inr show ?thesis by (simp add: getContacts_def)
    next
      case ne: False
      from forEach_collect_throws [OF ne]
      have "forEach_collect (the req_userId) msgs [] = Inl TypeError" .
      with False Inr ne show ?thesis by (simp add: getContacts_def)
    qed
  qed
qed

text \<open>
  As soon as the user has sent one stored message, the answer is 500 (for a user id
  that is an ObjectId and a database that answers).
\<close>

lemma getContacts_sender_500:
  assumes "castObjectId e uid = Some a" and "uid \<noteq> []" and "\<not> db_fails e FindMessages"
    and "m \<in> set (messages st)" and "sender m = Some a"
  shows "getContacts e st (Some uid) = Response 500 (JMessage ''Server or database issue'')"
proof -
  let ?msgs = "sort_key (\<lambda>m. - timestamp m)
                 (filter (\<lambda>m. sender m = Some a \<or> receiver_clause e uid m) (messages st))"
  have f: "Message_find_contacts e (messages st) uid = Inr ?msgs"
    using assms by (simp add: Message_find_contacts_def)
  have "m \<in> set ?msgs" using assms by simp
  then have ne: "?msgs \<noteq> []" by (metis empty_iff empty_set)
  then have l: "length ?msgs \<noteq> 0" by (metis length_0_conv)
  from forEach_collect_throws [OF ne]
  have t: "forEach_collect uid ?msgs [] = Inl TypeError" .
  show ?thesis
    unfolding getContacts_def using assms(2) f l t
    by (simp add: falsy_def Let_def del: length_0_conv set_sort length_sort)
qed

text \<open>
  Claim C1 fails on the code. The first user has sent a message to the second at time
  1 and one to the third at time 2; the claim promises the contact list [third,
  second]. The handler finds the two messages, enters \<^verbatim>\<open>forEach\<close>, and the call
  \<^verbatim>\<open>currentUserId?.tostring()\<close> throws; the answer is the 500 of the
  \<^verbatim>\<open>catch\<close>.
\<close>

theorem getContacts_failing_input:
  "getContacts env0 state_two (Some idA) = Response 500 (JMessage ''Server or database issue'')"
proof -
  have "mk_message ''000000000000000000000001'' idA idB 1 \<in> set (messages state_two)"
    by (simp add: state_two_def)
  moreover have "sender (mk_message ''000000000000000000000001'' idA idB 1) = Some idA"
    by (simp add: mk_message_def)
  ultimately show ?thesis
    by (intro getContacts_sender_500 [where a = idA]) simp_all
qed

text \<open>The messages the handler finds at that input, latest first.\<close>

lemma getContacts_failing_input_messages:
  "Message_find_contacts env0 (messages state_two) idA
     = Inr [mk_message ''000000000000000000000002'' idA idC 2,
            mk_message ''000000000000000000000001'' idA idB 1]"
  by (simp add: Message_find_contacts_def state_two_def mk_message_def env0_def)

end
